theory Spec2Isabelle
  imports Complex_Main "HOL-Library.Char_ord" "HOL-Library.List_Lexorder" "HOL-Library.Sublist"
begin

section \<open>JavaScript values\<close>

text \<open>
  Request bodies are parsed JSON. A JSON number is a double; it is modelled by the real
  number it denotes, which is exact for every comparison with 0 the server makes.
  Strings are modelled by their UTF-8 bytes.
\<close>

datatype json =
    JNull
  | JBool bool
  | JNum real
  | JStr string
  | JArr "json list"
  | JObj "(string \<times> json) list"

text \<open>
  An object is the list of its properties, each key once, as \<open>JSON.parse\<close> builds it.
  A property lookup \<open>obj.key\<close>: \<open>None\<close> is JavaScript's \<open>undefined\<close>.
\<close>

type_synonym jobject = "(string \<times> json) list"

definition get_prop :: "jobject \<Rightarrow> string \<Rightarrow> json option" where
  "get_prop obj k = map_of obj k"

text \<open>Truthiness of a value, as \<open>!x\<close> and \<open>x || y\<close> test it.\<close>

fun truthy :: "json option \<Rightarrow> bool" where
  "truthy None = False"
| "truthy (Some JNull) = False"
| "truthy (Some (JBool b)) = b"
| "truthy (Some (JNum r)) = (r \<noteq> 0)"
| "truthy (Some (JStr s)) = (s \<noteq> [])"
| "truthy (Some (JArr _)) = True"
| "truthy (Some (JObj _)) = True"

text \<open>The \<open>typeof\<close> operator.\<close>

fun typeof :: "json option \<Rightarrow> string" where
  "typeof None = ''undefined''"
| "typeof (Some JNull) = ''object''"
| "typeof (Some (JBool _)) = ''boolean''"
| "typeof (Some (JNum _)) = ''number''"
| "typeof (Some (JStr _)) = ''string''"
| "typeof (Some (JArr _)) = ''object''"
| "typeof (Some (JObj _)) = ''object''"

section \<open>Strings\<close>

definition byte :: "char \<Rightarrow> nat" where
  "byte c = of_char c"

text \<open>
  The white space and line terminator characters that \<open>String.prototype.trim\<close> and
  \<open>parseInt\<close> skip, as UTF-8 byte sequences: the six ASCII ones, U+00A0, U+1680,
  U+2000 to U+200A, U+2028, U+2029, U+202F, U+205F, U+3000 and U+FEFF.
\<close>

definition ws1 :: "char \<Rightarrow> bool" where
  "ws1 c = (byte c = 0x09 \<or> byte c = 0x0A \<or> byte c = 0x0B \<or> byte c = 0x0C \<or> byte c = 0x0D
            \<or> byte c = 0x20)"

definition ws2 :: "char \<Rightarrow> string \<Rightarrow> bool" where
  "ws2 c cs = (byte c = 0xC2 \<and> map byte (take 1 cs) = [0xA0])"

definition ws3 :: "char \<Rightarrow> string \<Rightarrow> bool" where
  "ws3 c cs =
     (case map byte (take 2 cs) of
        [b1, b2] \<Rightarrow>
          (byte c = 0xE1 \<and> b1 = 0x9A \<and> b2 = 0x80)
          \<or> (byte c = 0xE2 \<and> b1 = 0x80
               \<and> ((0x80 \<le> b2 \<and> b2 \<le> 0x8A) \<or> b2 = 0xA8 \<or> b2 = 0xA9 \<or> b2 = 0xAF))
          \<or> (byte c = 0xE2 \<and> b1 = 0x81 \<and> b2 = 0x9F)
          \<or> (byte c = 0xE3 \<and> b1 = 0x80 \<and> b2 = 0x80)
          \<or> (byte c = 0xEF \<and> b1 = 0xBB \<and> b2 = 0xBF)
      | _ \<Rightarrow> False)"

fun trimStart :: "string \<Rightarrow> string" where
  "trimStart [] = []"
| "trimStart (c # cs) =
     (if ws1 c then trimStart cs
      else if ws2 c cs then trimStart (drop 1 cs)
      else if ws3 c cs then trimStart (drop 2 cs)
      else c # cs)"

text \<open>\<open>s.trim().length === 0\<close>: the string consists of white space only.\<close>

definition trim_is_empty :: "string \<Rightarrow> bool" where
  "trim_is_empty s = (trimStart s = [])"

text \<open>ASCII case folding and \<open>String.prototype.includes\<close>.\<close>

definition ascii_lower :: "char \<Rightarrow> char" where
  "ascii_lower c = (if 0x41 \<le> byte c \<and> byte c \<le> 0x5A then char_of (byte c + 32) else c)"

fun str_includes :: "string \<Rightarrow> string \<Rightarrow> bool" where
  "str_includes [] q = (q = [])"
| "str_includes (c # cs) q = (take (length q) (c # cs) = q \<or> str_includes cs q)"

text \<open>\<open>Array.prototype.join\<close> on an array of strings.\<close>

fun join :: "string \<Rightarrow> string list \<Rightarrow> string" where
  "join sep [] = []"
| "join sep [x] = x"
| "join sep (x # y # ys) = x @ sep @ join sep (y # ys)"

section \<open>Responses\<close>

text \<open>
  The failure envelope \<open>{status, message, errors?, stack?}\<close> that the middleware and the
  central error handler send with \<open>res.status(code).json(...)\<close>.
\<close>

record envelope =
  env_status :: json
  env_message :: string
  env_errors :: "string list option"
  env_stack :: "string option"

record reply =
  code :: nat
  body :: envelope

text \<open>A middleware either answers the request itself or calls \<open>next()\<close>.\<close>

datatype middleware_result = Next | Replied reply

section \<open>Authentication middleware\<close>

text \<open>
  \<open>authenticate\<close> (server.js, lines 97 to 115). The first argument is
  \<open>process.env.API_KEY\<close> (\<open>None\<close> when the variable is not set), the second is
  \<open>req.headers['api-key']\<close> (\<open>None\<close> when the request carries no such header).
\<close>

definition authenticate :: "string option \<Rightarrow> string option \<Rightarrow> middleware_result" where
  "authenticate API_KEY apiKey =
     (if apiKey = None \<or> apiKey = Some [] then
        Replied \<lparr>code = 401,
          body = \<lparr>env_status = JStr ''error'',
                   env_message = ''API key is required. Please provide api-key in headers.'',
                   env_errors = None, env_stack = None\<rparr>\<rparr>
      else if apiKey \<noteq> API_KEY \<and> apiKey \<noteq> Some ''your-secret-api-key'' then
        Replied \<lparr>code = 401,
          body = \<lparr>env_status = JStr ''error'', env_message = ''Invalid API key'',
                   env_errors = None, env_stack = None\<rparr>\<rparr>
      else Next)"

section \<open>Validation middleware\<close>

text \<open>
  \<open>validateProduct\<close> (server.js, lines 118 to 153) on the parsed body \<open>req.body\<close>, a JSON
  object. The four checks run one after the other, each pushing onto \<open>errors\<close>.
\<close>

definition string_trim_is_empty :: "json option \<Rightarrow> bool" where
  "string_trim_is_empty v = (case v of Some (JStr s) \<Rightarrow> trim_is_empty s | _ \<Rightarrow> False)"

definition less_than_zero :: "json option \<Rightarrow> bool" where
  "less_than_zero v = (case v of Some (JNum r) \<Rightarrow> r < 0 | _ \<Rightarrow> False)"

definition validation_failed :: "string list \<Rightarrow> reply" where
  "validation_failed errors =
     \<lparr>code = 400,
      body = \<lparr>env_status = JStr ''error'', env_message = ''Validation failed'',
               env_errors = Some errors, env_stack = None\<rparr>\<rparr>"

definition validateProduct_errors :: "jobject \<Rightarrow> string list" where
  "validateProduct_errors req_body =
     (let name = get_prop req_body ''name'';
          price = get_prop req_body ''price'';
          category = get_prop req_body ''category'';
          inStock = get_prop req_body ''inStock''
      in (if \<not> truthy name \<or> typeof name \<noteq> ''string'' \<or> string_trim_is_empty name
          then [''Name is required and must be a non-empty string''] else [])
       @ (if price = None \<or> price = Some JNull then [''Price is required'']
          else if typeof price \<noteq> ''number'' \<or> less_than_zero price
          then [''Price must be a non-negative number''] else [])
       @ (if \<not> truthy category \<or> typeof category \<noteq> ''string'' \<or> string_trim_is_empty category
          then [''Category is required and must be a non-empty string''] else [])
       @ (if inStock \<noteq> None \<and> typeof inStock \<noteq> ''boolean''
          then [''inStock must be a boolean value''] else []))"

definition validateProduct :: "jobject \<Rightarrow> middleware_result" where
  "validateProduct req_body =
     (let errors = validateProduct_errors req_body
      in if length errors > 0 then Replied (validation_failed errors) else Next)"

text \<open>\<open>validateProductUpdate\<close> (server.js, lines 156 to 186).\<close>

definition validateProductUpdate_errors :: "jobject \<Rightarrow> string list" where
  "validateProductUpdate_errors req_body =
     (let name = get_prop req_body ''name'';
          price = get_prop req_body ''price'';
          category = get_prop req_body ''category'';
          inStock = get_prop req_body ''inStock''
      in (if name \<noteq> None \<and> (typeof name \<noteq> ''string'' \<or> string_trim_is_empty name)
          then [''Name must be a non-empty string''] else [])
       @ (if price \<noteq> None \<and> (typeof price \<noteq> ''number'' \<or> less_than_zero price)
          then [''Price must be a non-negative number''] else [])
       @ (if category \<noteq> None \<and> (typeof category \<noteq> ''string'' \<or> string_trim_is_empty category)
          then [''Category must be a non-empty string''] else [])
       @ (if inStock \<noteq> None \<and> typeof inStock \<noteq> ''boolean''
          then [''inStock must be a boolean value''] else []))"

definition validateProductUpdate :: "jobject \<Rightarrow> middleware_result" where
  "validateProductUpdate req_body =
     (let errors = validateProductUpdate_errors req_body
      in if length errors > 0 then Replied (validation_failed errors) else Next)"

section \<open>Error classes\<close>

text \<open>
  An error object as the central handler reads it: \<open>name\<close>, \<open>message\<close>, \<open>statusCode\<close>,
  \<open>status\<close>, the messages of \<open>Object.values(err.errors)\<close> (\<open>None\<close> when the object has
  no \<open>errors\<close> property), \<open>path\<close> and \<open>value\<close> as a template literal prints them,
  and \<open>stack\<close>.
\<close>

record js_error =
  e_name :: string
  e_message :: string
  e_statusCode :: "nat option"
  e_status :: "json option"
  e_errors :: "string list option"
  e_path :: string
  e_value :: string
  e_stack :: "string option"

text \<open>
  The three classes of server.js, lines 193 to 218. A handler's \<open>throw new C(message)\<close>
  is the pair of the class and the message; \<open>new_error\<close> is the object the constructor
  builds, given the trace the runtime records for it.
\<close>

datatype error_class = NotFoundError | ValidationError | AuthenticationError

fun class_name :: "error_class \<Rightarrow> string" where
  "class_name NotFoundError = ''NotFoundError''"
| "class_name ValidationError = ''ValidationError''"
| "class_name AuthenticationError = ''AuthenticationError''"

fun class_statusCode :: "error_class \<Rightarrow> nat" where
  "class_statusCode NotFoundError = 404"
| "class_statusCode ValidationError = 400"
| "class_statusCode AuthenticationError = 401"

definition new_error :: "error_class \<Rightarrow> string \<Rightarrow> string \<Rightarrow> js_error" where
  "new_error c message trace =
     \<lparr>e_name = class_name c, e_message = message, e_statusCode = Some (class_statusCode c),
      e_status = None, e_errors = None, e_path = ''undefined'', e_value = ''undefined'',
      e_stack = Some trace\<rparr>"

section \<open>Central error handler\<close>

text \<open>
  The error-handling middleware of server.js, lines 419 to 444. The first argument is
  \<open>process.env.NODE_ENV\<close>. \<open>Object.values(err.errors)\<close> throws a \<open>TypeError\<close> when
  \<open>err.errors\<close> is undefined: the handler then sends nothing, and the framework's
  built-in final handler answers in its place (\<open>HandlerThrew\<close>).
\<close>

datatype handler_result = Rendered reply | HandlerThrew

definition errorHandler :: "string option \<Rightarrow> js_error \<Rightarrow> handler_result" where
  "errorHandler NODE_ENV err =
     (let statusCode0 = (case e_statusCode err of Some n \<Rightarrow> if n \<noteq> 0 then n else 500 | None \<Rightarrow> 500);
          status = (if truthy (e_status err) then the (e_status err) else JStr ''error'')
      in if e_name err = ''ValidationError'' \<and> e_errors err = None then HandlerThrew
         else
           let statusCode1 = (if e_name err = ''ValidationError'' then 400 else statusCode0);
               message1 = (if e_name err = ''ValidationError''
                           then join '', '' (the (e_errors err)) else e_message err);
               statusCode2 = (if e_name err = ''CastError'' then 400 else statusCode1);
               message2 = (if e_name err = ''CastError''
                           then ''Invalid '' @ e_path err @ '': '' @ e_value err else message1)
           in Rendered
                \<lparr>code = statusCode2,
                 body = \<lparr>env_status = status, env_message = message2, env_errors = None,
                          env_stack = (if NODE_ENV = Some ''development'' then e_stack err
                                       else None)\<rparr>\<rparr>)"

section \<open>Numbers of the query string\<close>

text \<open>
  The numbers of the source are doubles. Every integer of magnitude up to \<open>2^53\<close> is a
  double, and a sum or product of doubles whose exact value is such an integer is that
  integer. The model computes with these integers exactly: \<open>Num n\<close> is the double
  \<open>n\<close>, with \<open>n\<close> in that range (the two zeros are one). What lies outside of it,
  where the source rounds or overflows to an infinity, is \<open>Beyond\<close>: a value the model
  does not determine. \<open>Infinity\<close> is the quotient of a positive count by zero.
\<close>

datatype jsnum = Num int | NaN | Infinity | Beyond

definition js_number :: "int \<Rightarrow> jsnum" where
  "js_number n = (if - (2 ^ 53) \<le> n \<and> n \<le> 2 ^ 53 then Num n else Beyond)"

definition digit_value :: "nat \<Rightarrow> char \<Rightarrow> nat option" where
  "digit_value R c =
     (if 0x30 \<le> byte c \<and> byte c \<le> 0x39 then Some (byte c - 0x30)
      else if R = 16 \<and> 0x61 \<le> byte c \<and> byte c \<le> 0x66 then Some (byte c - 0x61 + 10)
      else if R = 16 \<and> 0x41 \<le> byte c \<and> byte c \<le> 0x46 then Some (byte c - 0x41 + 10)
      else None)"

definition digits_value :: "nat \<Rightarrow> string \<Rightarrow> nat" where
  "digits_value R Z = foldl (\<lambda>acc c. acc * R + the (digit_value R c)) 0 Z"

text \<open>
  \<open>parseInt(string)\<close> with no radix: skip leading white space, read a sign, read the
  prefix \<open>0x\<close> or \<open>0X\<close> (radix 16, otherwise 10), then the longest run of digits of
  the radix; \<open>NaN\<close> when that run is empty, and otherwise the double of the integer
  the digits denote.
\<close>

definition parseInt :: "string \<Rightarrow> jsnum" where
  "parseInt inputString =
     (let S = trimStart inputString;
          negative = (take 1 S = ''-'');
          S1 = (if take 1 S = ''+'' \<or> take 1 S = ''-'' then drop 1 S else S);
          hex = (take 2 S1 = ''0x'' \<or> take 2 S1 = ''0X'');
          R = (if hex then 16 else 10);
          S2 = (if hex then drop 2 S1 else S1);
          Z = takeWhile (\<lambda>c. digit_value R c \<noteq> None) S2
      in if Z = [] then NaN
         else js_number ((if negative then - 1 else 1) * int (digits_value R Z)))"

text \<open>
  A query parameter with a numeric default (\<open>page = 1\<close>, \<open>limit = 10\<close>): the default
  stands for an absent parameter only, and \<open>parseInt\<close> of the number \<open>n\<close> is \<open>n\<close>.
\<close>

definition parseInt_param :: "string option \<Rightarrow> int \<Rightarrow> jsnum" where
  "parseInt_param v dflt = (case v of None \<Rightarrow> Num dflt | Some s \<Rightarrow> parseInt s)"

text \<open>\<open>x - 1\<close> and \<open>x * y\<close>. \<open>NaN\<close> makes the result \<open>NaN\<close>.\<close>

fun js_minus_one :: "jsnum \<Rightarrow> jsnum" where
  "js_minus_one (Num n) = js_number (n - 1)"
| "js_minus_one NaN = NaN"
| "js_minus_one Infinity = Infinity"
| "js_minus_one Beyond = Beyond"

fun js_times :: "jsnum \<Rightarrow> jsnum \<Rightarrow> jsnum" where
  "js_times (Num a) (Num b) = js_number (a * b)"
| "js_times NaN _ = NaN"
| "js_times _ NaN = NaN"
| "js_times _ _ = Beyond"

text \<open>
  \<open>Math.ceil(totalProducts / limit)\<close> for a count \<open>totalProducts\<close>. For a count and a
  limit of magnitude up to \<open>2^53\<close> the quotient of the doubles rounds to an integer
  only if it is one, so its ceiling is the ceiling of the exact quotient.
\<close>

fun js_ceil_div :: "nat \<Rightarrow> jsnum \<Rightarrow> jsnum" where
  "js_ceil_div totalProducts (Num l) =
     (if int totalProducts > 2 ^ 53 then Beyond
      else if l = 0 then (if totalProducts = 0 then NaN else Infinity)
      else Num \<lceil>real totalProducts / real_of_int l\<rceil>)"
| "js_ceil_div totalProducts NaN = NaN"
| "js_ceil_div totalProducts Infinity = (if int totalProducts > 2 ^ 53 then Beyond else Num 0)"
| "js_ceil_div totalProducts Beyond = Beyond"

section \<open>The product collection\<close>

text \<open>
  A document of the \<open>products\<close> collection as it is stored: the fields of the schema,
  and the two timestamps the schema option \<open>timestamps: true\<close> makes the store manage.
  The schema does not require \<open>inStock\<close>: \<open>p_inStock\<close> is \<open>Some b\<close> for a stored
  boolean and \<open>None\<close> for a document that has none (the field is absent or null), as
  an update operator in the body of a PUT can leave it. The field names carry the
  prefix \<open>p_\<close>, since \<open>id\<close>, \<open>name\<close> and \<open>price\<close> name other things in these theories.
  The collection is the list of its documents, fewer than \<open>2^53\<close>, so that a count
  of documents is a double. The data of a reply are the stored documents it is built
  from.
\<close>

record product =
  p_id :: string
  p_name :: string
  p_price :: real
  p_category :: string
  p_inStock :: "bool option"
  p_createdAt :: nat
  p_updatedAt :: nat

text \<open>
  The store is the external collaborator behind the \<open>Product\<close> model. Its calls are
  modelled on the inputs whose behaviour is documented and the handlers rely on; a
  call outside of that is \<open>OutsideModel\<close>, and \<open>Rejected\<close> is a rejected promise.
\<close>

datatype 'a store_result = Found 'a | Rejected | OutsideModel

record query_filter =
  f_category :: "string option"
  f_inStock :: "bool option"

definition matches :: "query_filter \<Rightarrow> product \<Rightarrow> bool" where
  "matches f p =
     ((case f_category f of None \<Rightarrow> True | Some c \<Rightarrow> p_category p = c)
      \<and> (case f_inStock f of None \<Rightarrow> True | Some b \<Rightarrow> p_inStock p = Some b))"

definition no_filter :: query_filter where
  "no_filter = \<lparr>f_category = None, f_inStock = None\<rparr>"

definition countDocuments :: "product list \<Rightarrow> query_filter \<Rightarrow> nat" where
  "countDocuments db f = length (filter (matches f) db)"

text \<open>
  \<open>Product.find(filter).limit(l).skip(s).sort({name: 1})\<close>: the matching documents in
  ascending binary order of \<open>name\<close> (documents of equal name in collection order: the
  store leaves their order open), without the first \<open>s\<close>, and then at most \<open>l\<close> of
  them, where a limit of 0 is no limit. The store rejects a negative skip.
\<close>

definition find_limit_skip_sort_name ::
    "product list \<Rightarrow> query_filter \<Rightarrow> jsnum \<Rightarrow> jsnum \<Rightarrow> product list store_result" where
  "find_limit_skip_sort_name db f limit skip =
     (case (limit, skip) of
        (Num l, Num s) \<Rightarrow>
          if l < 0 then OutsideModel
          else if s < 0 then Rejected
          else let rest = drop (nat s) (sort_key p_name (filter (matches f) db))
               in Found (if l = 0 then rest else take (nat l) rest)
      | _ \<Rightarrow> OutsideModel)"

text \<open>
  \<open>Product.find({name: {$regex: q, $options: 'i'}})\<close>. The pattern \<open>q\<close> is a regular
  expression, searched for anywhere in the name without regard to case. The model
  covers the patterns made of printable ASCII characters that stand for themselves
  and of the dot, which stands for any character, matched against names of printable
  ASCII characters.
\<close>

definition printable :: "char \<Rightarrow> bool" where
  "printable c = (0x20 \<le> byte c \<and> byte c \<le> 0x7E)"

text \<open>The bytes of the metacharacters: backslash, then \<open>^ $ . | ? * + ( ) [ ] { }\<close>.\<close>

definition metacharacter :: "char \<Rightarrow> bool" where
  "metacharacter c =
     List.member [0x5C, 0x5E, 0x24, 0x2E, 0x7C, 0x3F, 0x2A, 0x2B, 0x28, 0x29, 0x5B, 0x5D, 0x7B, 0x7D]
       (byte c)"

definition dot :: "char \<Rightarrow> bool" where
  "dot c = (byte c = 0x2E)"

definition supported_pattern :: "string \<Rightarrow> bool" where
  "supported_pattern q = list_all (\<lambda>c. printable c \<and> (dot c \<or> \<not> metacharacter c)) q"

fun match_here :: "string \<Rightarrow> string \<Rightarrow> bool" where
  "match_here [] text = True"
| "match_here (c # cs) [] = False"
| "match_here (c # cs) (d # ds) =
     ((dot c \<or> ascii_lower c = ascii_lower d) \<and> match_here cs ds)"

fun regex_search_i :: "string \<Rightarrow> string \<Rightarrow> bool" where
  "regex_search_i q [] = match_here q []"
| "regex_search_i q (d # ds) = (match_here q (d # ds) \<or> regex_search_i q ds)"

definition find_name_regex_i :: "product list \<Rightarrow> string \<Rightarrow> product list store_result" where
  "find_name_regex_i db q =
     (if supported_pattern q \<and> list_all (\<lambda>p. list_all printable (p_name p)) db
      then Found (filter (\<lambda>p. regex_search_i q (p_name p)) db)
      else OutsideModel)"

text \<open>
  What the search is specified to find: the products whose name contains \<open>q\<close> as a
  substring, without regard to case. A literal pattern is one of printable ASCII
  characters none of which is a metacharacter.
\<close>

definition literal_pattern :: "string \<Rightarrow> bool" where
  "literal_pattern q = list_all (\<lambda>c. printable c \<and> \<not> metacharacter c) q"

definition name_contains_ci :: "string \<Rightarrow> product \<Rightarrow> bool" where
  "name_contains_ci q p = str_includes (map ascii_lower (p_name p)) (map ascii_lower q)"

text \<open>\<open>Product.findOne({id: i})\<close>.\<close>

definition findOne :: "product list \<Rightarrow> string \<Rightarrow> product option" where
  "findOne db i = find (\<lambda>p. p_id p = i) db"

text \<open>
  The write calls take the parsed body as it is. The model covers a body whose keys are
  plain field names (no update operator \<open>$...\<close>, no dotted path, none of the
  store-managed \<open>_id\<close>, \<open>__v\<close>, \<open>createdAt\<close>, \<open>updatedAt\<close>) and whose schema fields
  have the schema's types, so that no cast is needed. Keys the schema does not declare
  are dropped (strict mode).
\<close>

definition plain_key :: "string \<Rightarrow> bool" where
  "plain_key k =
     (k \<noteq> [] \<and> take 1 k \<noteq> ''$'' \<and> \<not> List.member k (CHR ''.'')
      \<and> \<not> List.member [''_id'', ''__v'', ''createdAt'', ''updatedAt''] k)"

definition schema_typed :: "jobject \<Rightarrow> bool" where
  "schema_typed b =
     ((case get_prop b ''id'' of None \<Rightarrow> True | Some (JStr s) \<Rightarrow> s \<noteq> [] | _ \<Rightarrow> False)
      \<and> (case get_prop b ''name'' of None \<Rightarrow> True | Some (JStr s) \<Rightarrow> s \<noteq> [] | _ \<Rightarrow> False)
      \<and> (case get_prop b ''price'' of None \<Rightarrow> True | Some (JNum r) \<Rightarrow> True | _ \<Rightarrow> False)
      \<and> (case get_prop b ''category'' of None \<Rightarrow> True | Some (JStr s) \<Rightarrow> s \<noteq> [] | _ \<Rightarrow> False)
      \<and> (case get_prop b ''inStock'' of None \<Rightarrow> True | Some (JBool v) \<Rightarrow> True | _ \<Rightarrow> False))"

definition in_model :: "jobject \<Rightarrow> bool" where
  "in_model b = (list_all plain_key (map fst b) \<and> schema_typed b)"

text \<open>The \<open>$set\<close> of the fields the body provides.\<close>

definition set_fields :: "jobject \<Rightarrow> product \<Rightarrow> product" where
  "set_fields b p =
     p\<lparr>p_id := (case get_prop b ''id'' of Some (JStr s) \<Rightarrow> s | _ \<Rightarrow> p_id p),
       p_name := (case get_prop b ''name'' of Some (JStr s) \<Rightarrow> s | _ \<Rightarrow> p_name p),
       p_price := (case get_prop b ''price'' of Some (JNum r) \<Rightarrow> r | _ \<Rightarrow> p_price p),
       p_category := (case get_prop b ''category'' of Some (JStr s) \<Rightarrow> s | _ \<Rightarrow> p_category p),
       p_inStock := (case get_prop b ''inStock'' of Some (JBool v) \<Rightarrow> Some v
                     | _ \<Rightarrow> p_inStock p)\<rparr>"

fun replace_first :: "string \<Rightarrow> product \<Rightarrow> product list \<Rightarrow> product list" where
  "replace_first i p' [] = []"
| "replace_first i p' (p # ps) = (if p_id p = i then p' # ps else p # replace_first i p' ps)"

fun remove_first :: "string \<Rightarrow> product list \<Rightarrow> product list" where
  "remove_first i [] = []"
| "remove_first i (p # ps) = (if p_id p = i then ps else p # remove_first i ps)"

text \<open>
  \<open>Product.findOneAndUpdate({id: i}, body, {new: true, runValidators: true})\<close> at time
  \<open>now\<close>: the first document with that id gets the provided fields and a new
  \<open>updatedAt\<close>; the result is the updated document, or \<open>None\<close> (null) when no
  document has the id. The unique index on \<open>id\<close> rejects an id another document has.
\<close>

definition findOneAndUpdate ::
    "product list \<Rightarrow> string \<Rightarrow> jobject \<Rightarrow> nat \<Rightarrow> (product option \<times> product list) store_result" where
  "findOneAndUpdate db i b now =
     (if \<not> in_model b then OutsideModel
      else case findOne db i of
             None \<Rightarrow> Found (None, db)
           | Some p \<Rightarrow>
               let p' = (set_fields b p)\<lparr>p_updatedAt := now\<rparr>
               in if p_id p' \<noteq> p_id p \<and> List.member (map p_id db) (p_id p') then Rejected
                  else Found (Some p', replace_first i p' db))"

text \<open>\<open>Product.findOneAndDelete({id: i})\<close>.\<close>

definition findOneAndDelete :: "product list \<Rightarrow> string \<Rightarrow> product option \<times> product list" where
  "findOneAndDelete db i =
     (case findOne db i of None \<Rightarrow> (None, db) | Some p \<Rightarrow> (Some p, remove_first i db))"

text \<open>
  \<open>new Product(productData).save()\<close> at time \<open>now\<close>, for \<open>productData\<close> with a string
  id: the schema's three required fields must be there, \<open>inStock\<close> defaults to true.
\<close>

definition save_new :: "product list \<Rightarrow> jobject \<Rightarrow> nat \<Rightarrow> (product \<times> product list) store_result" where
  "save_new db productData now =
     (case (get_prop productData ''id'', get_prop productData ''name'',
            get_prop productData ''price'', get_prop productData ''category'') of
        (Some (JStr i), Some (JStr n), Some (JNum r), Some (JStr c)) \<Rightarrow>
          if \<not> in_model productData then OutsideModel
          else if List.member (map p_id db) i then Rejected
          else let doc = \<lparr>p_id = i, p_name = n, p_price = r, p_category = c,
                           p_inStock = (case get_prop productData ''inStock'' of
                                          Some (JBool v) \<Rightarrow> Some v | _ \<Rightarrow> Some True),
                           p_createdAt = now, p_updatedAt = now\<rparr>
               in Found (doc, db @ [doc])
      | _ \<Rightarrow> OutsideModel)"

section \<open>Route handlers\<close>

text \<open>
  What becomes of a request in a route: the handler sends a success body with a status
  code; a middleware halts it with a failure envelope; the handler throws an error of
  one of the three classes, which \<open>asyncHandler\<close> passes to \<open>next\<close>; the store
  rejects a call, which \<open>asyncHandler\<close> passes on likewise; or the store call is
  outside of the model.
\<close>

datatype 'a outcome =
    Sent nat 'a
  | Halted reply
  | Threw error_class string
  | StoreRejected
  | NotModelled

subsection \<open>GET /api/products\<close>

record list_query =
  q_category :: "string option"
  q_inStock :: "string option"
  q_page :: "string option"
  q_limit :: "string option"

record list_reply =
  l_results :: nat
  l_currentPage :: jsnum
  l_totalPages :: jsnum
  l_totalProducts :: nat
  l_limit :: jsnum
  l_data :: "product list"

definition build_filter :: "list_query \<Rightarrow> query_filter" where
  "build_filter q =
     \<lparr>f_category = (case q_category q of Some c \<Rightarrow> if c \<noteq> [] then Some c else None
                     | None \<Rightarrow> None),
      f_inStock = (case q_inStock q of Some v \<Rightarrow> Some (v = ''true'') | None \<Rightarrow> None)\<rparr>"

definition list_products :: "product list \<Rightarrow> list_query \<Rightarrow> list_reply outcome" where
  "list_products db q =
     (let filter = build_filter q;
          page = parseInt_param (q_page q) 1;
          limit = parseInt_param (q_limit q) 10;
          skip = js_times (js_minus_one page) limit;
          totalProducts = countDocuments db filter;
          totalPages = js_ceil_div totalProducts limit
      in case find_limit_skip_sort_name db filter limit skip of
           Found products \<Rightarrow>
             Sent 200 \<lparr>l_results = length products, l_currentPage = page,
                       l_totalPages = totalPages, l_totalProducts = totalProducts,
                       l_limit = limit, l_data = products\<rparr>
         | Rejected \<Rightarrow> StoreRejected
         | OutsideModel \<Rightarrow> NotModelled)"

subsection \<open>GET /api/products/search\<close>

record search_reply =
  s_results :: nat
  s_searchQuery :: string
  s_data :: "product list"

definition search_query_required :: string where
  \<open>search_query_required = ''Search query parameter "q" is required''\<close>

definition search_products :: "product list \<Rightarrow> string option \<Rightarrow> search_reply outcome" where
  \<open>search_products db q =
     (if q = None \<or> q = Some [] then Threw ValidationError search_query_required
      else case find_name_regex_i db (the q) of
             Found products \<Rightarrow>
               Sent 200 \<lparr>s_results = length products, s_searchQuery = the q,
                         s_data = products\<rparr>
           | Rejected \<Rightarrow> StoreRejected
           | OutsideModel \<Rightarrow> NotModelled)\<close>

subsection \<open>GET /api/products/statistics\<close>

text \<open>
  The three counts of the statistics, each a store call of its own that the handler
  awaits: \<open>db1\<close>, \<open>db2\<close> and \<open>db3\<close> are the collection at the first, the second and
  the third of them, the same collection when no write falls between the calls. The
  two aggregation pipelines of the handler (price statistics and category breakdown,
  in floating point) are not part of the model.
\<close>

record statistics_reply =
  st_totalProducts :: nat
  st_inStock :: nat
  st_outOfStock :: nat

definition product_statistics ::
    "product list \<Rightarrow> product list \<Rightarrow> product list \<Rightarrow> statistics_reply outcome" where
  "product_statistics db1 db2 db3 =
     (let totalProducts = countDocuments db1 no_filter;
          inStockCount = countDocuments db2 \<lparr>f_category = None, f_inStock = Some True\<rparr>;
          outOfStockCount = countDocuments db3 \<lparr>f_category = None, f_inStock = Some False\<rparr>
      in Sent 200 \<lparr>st_totalProducts = totalProducts, st_inStock = inStockCount,
                   st_outOfStock = outOfStockCount\<rparr>)"

subsection \<open>GET /api/products/:id\<close>

definition not_found_message :: "string \<Rightarrow> string" where
  "not_found_message i = ''Product with id '' @ i @ '' not found''"

definition get_product :: "product list \<Rightarrow> string \<Rightarrow> product outcome" where
  "get_product db i =
     (case findOne db i of
        None \<Rightarrow> Threw NotFoundError (not_found_message i)
      | Some product \<Rightarrow> Sent 200 product)"

subsection \<open>POST, PUT and DELETE\<close>

text \<open>
  The three protected routes: \<open>authenticate\<close>, then the validation middleware of the
  route, then the handler. Each returns what becomes of the request and the
  collection afterwards. \<open>API_KEY\<close> is the configured secret, \<open>apiKey\<close> the header of
  the request, \<open>uuid\<close> the token \<open>uuidv4()\<close> returns, \<open>now\<close> the time of the write.
\<close>

record product_reply =
  r_message :: string
  r_data :: product

definition create_handler ::
    "string \<Rightarrow> nat \<Rightarrow> product list \<Rightarrow> jobject \<Rightarrow> product_reply outcome \<times> product list" where
  "create_handler uuid now db req_body =
     (let productData =
            (''id'', if truthy (get_prop req_body ''id'') then the (get_prop req_body ''id'')
                     else JStr uuid) # filter (\<lambda>kv. fst kv \<noteq> ''id'') req_body
      in case save_new db productData now of
           Found (newProduct, db') \<Rightarrow>
             (Sent 201 \<lparr>r_message = ''Product created successfully'', r_data = newProduct\<rparr>, db')
         | Rejected \<Rightarrow> (StoreRejected, db)
         | OutsideModel \<Rightarrow> (NotModelled, db))"

definition post_product ::
    "string option \<Rightarrow> string \<Rightarrow> nat \<Rightarrow> product list \<Rightarrow> string option \<Rightarrow> jobject
      \<Rightarrow> product_reply outcome \<times> product list" where
  "post_product API_KEY uuid now db apiKey req_body =
     (case authenticate API_KEY apiKey of
        Replied r \<Rightarrow> (Halted r, db)
      | Next \<Rightarrow>
          (case validateProduct req_body of
             Replied r \<Rightarrow> (Halted r, db)
           | Next \<Rightarrow> create_handler uuid now db req_body))"

definition update_handler ::
    "nat \<Rightarrow> product list \<Rightarrow> string \<Rightarrow> jobject \<Rightarrow> product_reply outcome \<times> product list" where
  "update_handler now db i req_body =
     (case findOneAndUpdate db i req_body now of
        Found (Some updatedProduct, db') \<Rightarrow>
          (Sent 200 \<lparr>r_message = ''Product updated successfully'', r_data = updatedProduct\<rparr>,
           db')
      | Found (None, db') \<Rightarrow> (Threw NotFoundError (not_found_message i), db')
      | Rejected \<Rightarrow> (StoreRejected, db)
      | OutsideModel \<Rightarrow> (NotModelled, db))"

definition put_product ::
    "string option \<Rightarrow> nat \<Rightarrow> product list \<Rightarrow> string option \<Rightarrow> string \<Rightarrow> jobject
      \<Rightarrow> product_reply outcome \<times> product list" where
  "put_product API_KEY now db apiKey i req_body =
     (case authenticate API_KEY apiKey of
        Replied r \<Rightarrow> (Halted r, db)
      | Next \<Rightarrow>
          (case validateProductUpdate req_body of
             Replied r \<Rightarrow> (Halted r, db)
           | Next \<Rightarrow> update_handler now db i req_body))"

definition delete_handler ::
    "product list \<Rightarrow> string \<Rightarrow> product_reply outcome \<times> product list" where
  "delete_handler db i =
     (case findOneAndDelete db i of
        (Some deletedProduct, db') \<Rightarrow>
          (Sent 200 \<lparr>r_message = ''Product deleted successfully'', r_data = deletedProduct\<rparr>,
           db')
      | (None, db') \<Rightarrow> (Threw NotFoundError (not_found_message i), db'))"

definition delete_product ::
    "string option \<Rightarrow> product list \<Rightarrow> string option \<Rightarrow> string
      \<Rightarrow> product_reply outcome \<times> product list" where
  "delete_product API_KEY db apiKey i =
     (case authenticate API_KEY apiKey of
        Replied r \<Rightarrow> (Halted r, db)
      | Next \<Rightarrow> delete_handler db i)"

section \<open>Routing\<close>

text \<open>
  The routes in the order server.js registers them (lines 228 to 408), and after them
  the handler of unmatched requests (line 414). A route path is its list of segments,
  a literal or a parameter \<open>:name\<close>. The router matches a request path against
  a route path without regard to case and allows one trailing slash; a parameter
  stands for one non-empty segment. A route of method GET also serves HEAD.
\<close>

datatype http_method = GET | HEAD | POST | PUT | DELETE | PATCH

datatype segment = Lit string | Param string

datatype handler =
    Welcome
  | ListProducts
  | SearchProducts
  | ProductStatistics
  | GetProduct
  | CreateProduct
  | UpdateProduct
  | DeleteProduct
  | Unmatched

definition routes :: "(http_method \<times> segment list \<times> handler) list" where
  "routes =
     [(GET, [], Welcome),
      (GET, [Lit ''api'', Lit ''products''], ListProducts),
      (GET, [Lit ''api'', Lit ''products'', Lit ''search''], SearchProducts),
      (GET, [Lit ''api'', Lit ''products'', Lit ''statistics''], ProductStatistics),
      (GET, [Lit ''api'', Lit ''products'', Param ''id''], GetProduct),
      (POST, [Lit ''api'', Lit ''products''], CreateProduct),
      (PUT, [Lit ''api'', Lit ''products'', Param ''id''], UpdateProduct),
      (DELETE, [Lit ''api'', Lit ''products'', Param ''id''], DeleteProduct)]"

fun match_path :: "segment list \<Rightarrow> string \<Rightarrow> bool" where
  "match_path [] path = (path = [] \<or> path = ''/'')"
| "match_path (Lit l # segs) path =
     (take 1 path = ''/''
      \<and> map ascii_lower (take (length l) (drop 1 path)) = map ascii_lower l
      \<and> match_path segs (drop (1 + length l) path))"
| "match_path (Param n # segs) path =
     (take 1 path = ''/''
      \<and> takeWhile (\<lambda>c. c \<noteq> CHR ''/'') (drop 1 path) \<noteq> []
      \<and> match_path segs (dropWhile (\<lambda>c. c \<noteq> CHR ''/'') (drop 1 path)))"

definition method_matches :: "http_method \<Rightarrow> http_method \<Rightarrow> bool" where
  "method_matches route_method m = (route_method = m \<or> (route_method = GET \<and> m = HEAD))"

text \<open>
  The first route that matches handles the request: each handler sends the response or
  passes an error on, and an error skips every later route.
\<close>

definition dispatch :: "http_method \<Rightarrow> string \<Rightarrow> handler" where
  "dispatch m path =
     (case find (\<lambda>(rm, segs, h). method_matches rm m \<and> match_path segs path) routes of
        Some (rm, segs, h) \<Rightarrow> h
      | None \<Rightarrow> Unmatched)"

section \<open>Seed data\<close>

text \<open>
  The five products \<open>seedDatabase\<close> inserts into an empty collection (server.js, lines
  31 to 72) at time \<open>t\<close>. The schema has no \<open>description\<close>, so the store drops it.
\<close>

definition initialProducts :: "nat \<Rightarrow> product list" where
  "initialProducts t =
     [\<lparr>p_id = ''1'', p_name = ''Laptop'', p_price = 1200, p_category = ''electronics'',
       p_inStock = Some True, p_createdAt = t, p_updatedAt = t\<rparr>,
      \<lparr>p_id = ''2'', p_name = ''Smartphone'', p_price = 800, p_category = ''electronics'',
       p_inStock = Some True, p_createdAt = t, p_updatedAt = t\<rparr>,
      \<lparr>p_id = ''3'', p_name = ''Coffee Maker'', p_price = 50, p_category = ''kitchen'',
       p_inStock = Some False, p_createdAt = t, p_updatedAt = t\<rparr>,
      \<lparr>p_id = ''4'', p_name = ''Wireless Mouse'', p_price = 25, p_category = ''electronics'',
       p_inStock = Some True, p_createdAt = t, p_updatedAt = t\<rparr>,
      \<lparr>p_id = ''5'', p_name = ''Blender'', p_price = 80, p_category = ''kitchen'',
       p_inStock = Some True, p_createdAt = t, p_updatedAt = t\<rparr>]"

section \<open>Authentication\<close>

text \<open>
  C1, as stated: authentication succeeds exactly for the configured secret. It does not:
  with the secret \<open>sk_prod\<close> configured, a request whose header is the built-in key
  \<open>your-secret-api-key\<close> passes, although the header differs from the secret.
\<close>

theorem authenticate_fallback_key_accepted:
  "authenticate (Some ''sk_prod'') (Some ''your-secret-api-key'') = Next
   \<and> Some ''your-secret-api-key'' \<noteq> Some ''sk_prod''"
  by (simp add: authenticate_def)

text \<open>
  C1, amended: the check passes exactly when the header is a non-empty string equal to
  the configured secret or to the built-in key \<open>your-secret-api-key\<close>; an absent or empty
  header is answered with 401 and the message that the key is required; any other
  header with 401 and the message that the key is invalid. On each of the three
  protected routes the 401 reply ends the request and leaves the collection as it was.
\<close>

theorem authenticate_outcomes:
  "(authenticate API_KEY apiKey = Next
      \<longleftrightarrow> (\<exists>k. apiKey = Some k \<and> k \<noteq> [] \<and> (API_KEY = Some k \<or> k = ''your-secret-api-key'')))
   \<and> (apiKey = None \<or> apiKey = Some [] \<longrightarrow>
        (\<exists>r. authenticate API_KEY apiKey = Replied r \<and> code r = 401
             \<and> env_status (body r) = JStr ''error''
             \<and> env_message (body r) = ''API key is required. Please provide api-key in headers.''))
   \<and> (apiKey \<noteq> None \<and> apiKey \<noteq> Some [] \<and> apiKey \<noteq> API_KEY
        \<and> apiKey \<noteq> Some ''your-secret-api-key'' \<longrightarrow>
        (\<exists>r. authenticate API_KEY apiKey = Replied r \<and> code r = 401
             \<and> env_status (body r) = JStr ''error''
             \<and> env_message (body r) = ''Invalid API key''))
   \<and> (\<forall>r. authenticate API_KEY apiKey = Replied r \<longrightarrow>
          post_product API_KEY uuid now db apiKey req_body = (Halted r, db)
          \<and> put_product API_KEY now db apiKey i req_body = (Halted r, db)
          \<and> delete_product API_KEY db apiKey i = (Halted r, db))"
  by (auto simp: authenticate_def post_product_def put_product_def delete_product_def)

theorem authenticate_outcomes_witness:
  "authenticate (Some ''sk_prod'') (Some ''sk_prod'') = Next
   \<and> (\<exists>r. authenticate (Some ''sk_prod'') None = Replied r \<and> code r = 401
          \<and> env_status (body r) = JStr ''error''
          \<and> env_message (body r) = ''API key is required. Please provide api-key in headers.'')
   \<and> (\<exists>r. authenticate (Some ''sk_prod'') (Some ''guess'') = Replied r \<and> code r = 401
          \<and> env_status (body r) = JStr ''error''
          \<and> env_message (body r) = ''Invalid API key'')"
  using authenticate_outcomes [where API_KEY = "Some ''sk_prod''" and apiKey = "Some ''sk_prod''"]
        authenticate_outcomes [where API_KEY = "Some ''sk_prod''" and apiKey = None]
        authenticate_outcomes [where API_KEY = "Some ''sk_prod''" and apiKey = "Some ''guess''"]
  by simp

section \<open>Facts about strings\<close>

lemma str_includes_prefix: "str_includes (q @ ss) q"
proof (cases "q @ ss")
  case Nil
  then show ?thesis by simp
next
  case (Cons a l)
  have "take (length q) (q @ ss) = q" by simp
  with Cons show ?thesis by simp
qed

lemma str_includes_mid: "str_includes (ps @ q @ ss) q"
  by (induction ps) (simp_all add: str_includes_prefix)

lemma str_includes_iff: "str_includes n q \<longleftrightarrow> (\<exists>ps ss. n = ps @ q @ ss)"
proof
  assume "str_includes n q"
  then show "\<exists>ps ss. n = ps @ q @ ss"
  proof (induction n)
    case Nil
    then show ?case by simp
  next
    case (Cons c cs)
    show ?case
    proof (cases "take (length q) (c # cs) = q")
      case True
      then have "c # cs = [] @ q @ drop (length q) (c # cs)"
        by (metis append_Nil append_take_drop_id)
      then show ?thesis by blast
    next
      case False
      with Cons.prems have "str_includes cs q" by simp
      then obtain ps ss where "cs = ps @ q @ ss" using Cons.IH by blast
      then have "c # cs = (c # ps) @ q @ ss" by simp
      then show ?thesis by blast
    qed
  qed
next
  assume "\<exists>ps ss. n = ps @ q @ ss"
  then show "str_includes n q" using str_includes_mid by blast
qed

section \<open>Validation\<close>

lemma name_rule:
  "(\<not> truthy v \<or> typeof v \<noteq> ''string'' \<or> string_trim_is_empty v)
     \<longleftrightarrow> (case v of Some (JStr s) \<Rightarrow> trim_is_empty s | _ \<Rightarrow> True)"
  by (cases v rule: truthy.cases) (auto simp: string_trim_is_empty_def trim_is_empty_def)

lemma price_rule:
  "v \<noteq> None \<Longrightarrow> v \<noteq> Some JNull \<Longrightarrow>
   (typeof v \<noteq> ''number'' \<or> less_than_zero v)
     \<longleftrightarrow> (case v of None \<Rightarrow> False | Some JNull \<Rightarrow> False | Some (JNum r) \<Rightarrow> r < 0 | _ \<Rightarrow> True)"
  by (cases v rule: truthy.cases) (auto simp: less_than_zero_def)

lemma inStock_rule:
  "(v \<noteq> None \<and> typeof v \<noteq> ''boolean'')
     \<longleftrightarrow> (case v of None \<Rightarrow> False | Some (JBool b) \<Rightarrow> False | _ \<Rightarrow> True)"
  by (cases v rule: truthy.cases) auto

lemma create_name_message:
  "''Name is required and must be a non-empty string'' \<in> set (validateProduct_errors b)
     \<longleftrightarrow> (case get_prop b ''name'' of Some (JStr s) \<Rightarrow> trim_is_empty s | _ \<Rightarrow> True)"
  unfolding validateProduct_errors_def Let_def name_rule [symmetric] by simp

lemma create_price_required_message:
  "''Price is required'' \<in> set (validateProduct_errors b)
     \<longleftrightarrow> (get_prop b ''price'' = None \<or> get_prop b ''price'' = Some JNull)"
  unfolding validateProduct_errors_def Let_def by simp

lemma create_price_message:
  "''Price must be a non-negative number'' \<in> set (validateProduct_errors b)
     \<longleftrightarrow> (case get_prop b ''price'' of None \<Rightarrow> False | Some JNull \<Rightarrow> False
            | Some (JNum r) \<Rightarrow> r < 0 | _ \<Rightarrow> True)"
proof (cases "get_prop b ''price'' = None \<or> get_prop b ''price'' = Some JNull")
  case True
  then show ?thesis unfolding validateProduct_errors_def Let_def by auto
next
  case False
  then show ?thesis
    unfolding validateProduct_errors_def Let_def
    using price_rule [of "get_prop b ''price''"] by simp
qed

lemma create_category_message:
  "''Category is required and must be a non-empty string'' \<in> set (validateProduct_errors b)
     \<longleftrightarrow> (case get_prop b ''category'' of Some (JStr s) \<Rightarrow> trim_is_empty s | _ \<Rightarrow> True)"
  unfolding validateProduct_errors_def Let_def name_rule [symmetric] by simp

lemma create_inStock_message:
  "''inStock must be a boolean value'' \<in> set (validateProduct_errors b)
     \<longleftrightarrow> (case get_prop b ''inStock'' of None \<Rightarrow> False | Some (JBool v) \<Rightarrow> False | _ \<Rightarrow> True)"
  unfolding validateProduct_errors_def Let_def inStock_rule [symmetric] by simp

lemma create_messages_ordered:
  "subseq (validateProduct_errors b)
     [''Name is required and must be a non-empty string'', ''Price is required'',
      ''Price must be a non-negative number'',
      ''Category is required and must be a non-empty string'',
      ''inStock must be a boolean value'']"
  unfolding validateProduct_errors_def Let_def by simp

lemma create_example:
  "validateProduct_errors [(''name'', JStr ''''), (''price'', JNum (- 50))] =
     [''Name is required and must be a non-empty string'',
      ''Price must be a non-negative number'',
      ''Category is required and must be a non-empty string'']"
  by (simp add: validateProduct_errors_def get_prop_def less_than_zero_def)


lemma validateProduct_reply:
  "validateProduct b =
     (if validateProduct_errors b = [] then Next
      else Replied \<lparr>code = 400,
             body = \<lparr>env_status = JStr ''error'', env_message = ''Validation failed'',
                      env_errors = Some (validateProduct_errors b), env_stack = None\<rparr>\<rparr>)"
  by (simp add: validateProduct_def validation_failed_def Let_def)

lemma post_product_authenticated:
  "authenticate API_KEY apiKey = Next \<Longrightarrow>
   post_product API_KEY uuid now db apiKey b =
     (if validateProduct_errors b = [] then create_handler uuid now db b
      else (Halted (validation_failed (validateProduct_errors b)), db))"
  by (simp add: post_product_def validateProduct_def Let_def)

text \<open>
  C4: \<open>validateProduct\<close> checks every field whatever the other checks found. Each message
  is in the list exactly when its own rule is violated, the messages keep the order
  name, price, category, inStock, and a non-empty list is sent with status 400. The body
  \<open>{name: "", price: -50}\<close> gets the three messages for name, price and category, and
  an authenticated POST of a body with violations ends there with that reply.
\<close>

theorem validateProduct_reports_every_violation:
  "(''Name is required and must be a non-empty string'' \<in> set (validateProduct_errors b)
      \<longleftrightarrow> (case get_prop b ''name'' of Some (JStr s) \<Rightarrow> trim_is_empty s | _ \<Rightarrow> True))
   \<and> (''Price is required'' \<in> set (validateProduct_errors b)
      \<longleftrightarrow> (get_prop b ''price'' = None \<or> get_prop b ''price'' = Some JNull))
   \<and> (''Price must be a non-negative number'' \<in> set (validateProduct_errors b)
      \<longleftrightarrow> (case get_prop b ''price'' of None \<Rightarrow> False | Some JNull \<Rightarrow> False
             | Some (JNum r) \<Rightarrow> r < 0 | _ \<Rightarrow> True))
   \<and> (''Category is required and must be a non-empty string'' \<in> set (validateProduct_errors b)
      \<longleftrightarrow> (case get_prop b ''category'' of Some (JStr s) \<Rightarrow> trim_is_empty s | _ \<Rightarrow> True))
   \<and> (''inStock must be a boolean value'' \<in> set (validateProduct_errors b)
      \<longleftrightarrow> (case get_prop b ''inStock'' of None \<Rightarrow> False | Some (JBool v) \<Rightarrow> False | _ \<Rightarrow> True))
   \<and> subseq (validateProduct_errors b)
        [''Name is required and must be a non-empty string'', ''Price is required'',
         ''Price must be a non-negative number'',
         ''Category is required and must be a non-empty string'',
         ''inStock must be a boolean value'']
   \<and> validateProduct b =
        (if validateProduct_errors b = [] then Next
         else Replied \<lparr>code = 400,
                body = \<lparr>env_status = JStr ''error'', env_message = ''Validation failed'',
                         env_errors = Some (validateProduct_errors b), env_stack = None\<rparr>\<rparr>)
   \<and> validateProduct_errors [(''name'', JStr []), (''price'', JNum (- 50))] =
        [''Name is required and must be a non-empty string'',
         ''Price must be a non-negative number'',
         ''Category is required and must be a non-empty string'']
   \<and> (authenticate API_KEY apiKey = Next \<longrightarrow>
        post_product API_KEY uuid now db apiKey b =
          (if validateProduct_errors b = [] then create_handler uuid now db b
           else (Halted (validation_failed (validateProduct_errors b)), db)))"
  using create_name_message [of b] create_price_required_message [of b]
    create_price_message [of b] create_category_message [of b] create_inStock_message [of b]
    create_messages_ordered [of b] validateProduct_reply [of b] create_example
    post_product_authenticated [of API_KEY apiKey uuid now db b]
  by blast

theorem validateProduct_reports_every_violation_witness:
  "authenticate (Some ''sk_prod'') (Some ''sk_prod'') = Next
   \<and> post_product (Some ''sk_prod'') ''u-1'' 7 (initialProducts 0) (Some ''sk_prod'')
        [(''name'', JStr []), (''price'', JNum (- 50))] =
       (Halted \<lparr>code = 400,
          body = \<lparr>env_status = JStr ''error'', env_message = ''Validation failed'',
                   env_errors = Some [''Name is required and must be a non-empty string'',
                                      ''Price must be a non-negative number'',
                                      ''Category is required and must be a non-empty string''],
                   env_stack = None\<rparr>\<rparr>,
        initialProducts 0)"
  using validateProduct_reports_every_violation
          [where API_KEY = "Some ''sk_prod''" and apiKey = "Some ''sk_prod''"
             and b = "[(''name'', JStr []), (''price'', JNum (- 50))]"
             and uuid = "''u-1''" and now = 7 and db = "initialProducts 0"]
  by (simp add: authenticate_def validation_failed_def)

lemma update_price_message:
  "get_prop b ''price'' = Some (JNum r) \<Longrightarrow> r < 0 \<Longrightarrow>
   ''Price must be a non-negative number'' \<in> set (validateProductUpdate_errors b)"
  by (simp add: validateProductUpdate_errors_def less_than_zero_def Let_def)

lemma create_price_message_neg:
  "get_prop b ''price'' = Some (JNum r) \<Longrightarrow> r < 0 \<Longrightarrow>
   ''Price must be a non-negative number'' \<in> set (validateProduct_errors b)"
  by (simp add: validateProduct_errors_def less_than_zero_def Let_def)

lemma mentions_non_negative:
  "str_includes ''Price must be a non-negative number'' ''non-negative''"
  by simp

text \<open>
  C5: a body whose \<open>price\<close> is a number below 0 is refused with status 400 by the
  validation of create and by the validation of update, and a message of the reply
  mentions \<open>non-negative\<close>.
\<close>

theorem negative_price_rejected:
  assumes "get_prop b ''price'' = Some (JNum r)" and "r < 0"
  shows "(\<exists>errors. validateProduct b = Replied \<lparr>code = 400,
              body = \<lparr>env_status = JStr ''error'', env_message = ''Validation failed'',
                       env_errors = Some errors, env_stack = None\<rparr>\<rparr>
            \<and> (\<exists>m \<in> set errors. str_includes m ''non-negative''))
       \<and> (\<exists>errors. validateProductUpdate b = Replied \<lparr>code = 400,
              body = \<lparr>env_status = JStr ''error'', env_message = ''Validation failed'',
                       env_errors = Some errors, env_stack = None\<rparr>\<rparr>
            \<and> (\<exists>m \<in> set errors. str_includes m ''non-negative''))"
proof
  let ?m = "''Price must be a non-negative number''"
  have c: "?m \<in> set (validateProduct_errors b)"
    using assms by (rule create_price_message_neg)
  then have "validateProduct_errors b \<noteq> []" by auto
  then have "validateProduct b = Replied \<lparr>code = 400,
              body = \<lparr>env_status = JStr ''error'', env_message = ''Validation failed'',
                       env_errors = Some (validateProduct_errors b), env_stack = None\<rparr>\<rparr>"
    by (simp add: validateProduct_def validation_failed_def Let_def)
  with c mentions_non_negative
  show "\<exists>errors. validateProduct b = Replied \<lparr>code = 400,
              body = \<lparr>env_status = JStr ''error'', env_message = ''Validation failed'',
                       env_errors = Some errors, env_stack = None\<rparr>\<rparr>
            \<and> (\<exists>m \<in> set errors. str_includes m ''non-negative'')"
    by blast
next
  let ?m = "''Price must be a non-negative number''"
  have u: "?m \<in> set (validateProductUpdate_errors b)"
    using assms by (rule update_price_message)
  then have "validateProductUpdate_errors b \<noteq> []" by auto
  then have "validateProductUpdate b = Replied \<lparr>code = 400,
              body = \<lparr>env_status = JStr ''error'', env_message = ''Validation failed'',
                       env_errors = Some (validateProductUpdate_errors b), env_stack = None\<rparr>\<rparr>"
    by (simp add: validateProductUpdate_def validation_failed_def Let_def)
  with u mentions_non_negative
  show "\<exists>errors. validateProductUpdate b = Replied \<lparr>code = 400,
              body = \<lparr>env_status = JStr ''error'', env_message = ''Validation failed'',
                       env_errors = Some errors, env_stack = None\<rparr>\<rparr>
            \<and> (\<exists>m \<in> set errors. str_includes m ''non-negative'')"
    by blast
qed

theorem negative_price_rejected_witness:
  "validateProduct [(''name'', JStr ''Desk''), (''price'', JNum (- 1)), (''category'', JStr ''office'')] =
     Replied \<lparr>code = 400,
       body = \<lparr>env_status = JStr ''error'', env_message = ''Validation failed'',
                env_errors = Some [''Price must be a non-negative number''], env_stack = None\<rparr>\<rparr>
   \<and> validateProductUpdate [(''price'', JNum (- 1))] =
     Replied \<lparr>code = 400,
       body = \<lparr>env_status = JStr ''error'', env_message = ''Validation failed'',
                env_errors = Some [''Price must be a non-negative number''], env_stack = None\<rparr>\<rparr>"
proof -
  have p1: "get_prop [(''name'', JStr ''Desk''), (''price'', JNum (- 1)), (''category'', JStr ''office'')]
              ''price'' = Some (JNum (- 1))"
    by (simp add: get_prop_def)
  have p2: "get_prop [(''price'', JNum (- 1))] ''price'' = Some (JNum (- 1))"
    by (simp add: get_prop_def)
  have neg: "(- 1 :: real) < 0" by simp
  note a = negative_price_rejected [OF p1 neg] and b = negative_price_rejected [OF p2 neg]
  have e1: "validateProduct_errors [(''name'', JStr ''Desk''), (''price'', JNum (- 1)), (''category'', JStr ''office'')]
              = [''Price must be a non-negative number'']"
    by (simp add: validateProduct_errors_def get_prop_def less_than_zero_def
        string_trim_is_empty_def trim_is_empty_def ws1_def ws2_def ws3_def byte_def)
  have e2: "validateProductUpdate_errors [(''price'', JNum (- 1))]
              = [''Price must be a non-negative number'']"
    by (simp add: validateProductUpdate_errors_def get_prop_def less_than_zero_def)
  from a b e1 e2 show ?thesis
    by (simp add: validateProduct_def validateProductUpdate_def validation_failed_def)
qed

section \<open>Statistics\<close>

lemma matches_inStock_only:
  "matches \<lparr>f_category = None, f_inStock = Some b\<rparr> = (\<lambda>p. p_inStock p = Some b)"
  by (rule ext) (simp add: matches_def)

lemma matches_no_filter: "matches no_filter = (\<lambda>p. True)"
  by (rule ext) (simp add: matches_def no_filter_def)

lemma boolean_counts_partition:
  "list_all (\<lambda>p. p_inStock p \<noteq> None) db \<Longrightarrow>
   length (filter (\<lambda>p. p_inStock p = Some True) db)
     + length (filter (\<lambda>p. p_inStock p = Some False) db) = length db"
  by (induction db) auto

text \<open>
  C8, amended: when no write falls between the three counts of a statistics request
  and every stored document has a boolean \<open>inStock\<close>, the count of products in stock
  plus the count of products out of stock is the total count.
\<close>

theorem statistics_counts_add_up:
  assumes "list_all (\<lambda>p. p_inStock p \<noteq> None) db"
  shows "\<exists>r. product_statistics db db db = Sent 200 r
       \<and> st_inStock r + st_outOfStock r = st_totalProducts r
       \<and> st_totalProducts r = length db"
  using boolean_counts_partition [OF assms]
  by (simp add: product_statistics_def countDocuments_def matches_inStock_only
      matches_no_filter)

theorem statistics_counts_add_up_witness:
  "\<exists>r. product_statistics (initialProducts 0) (initialProducts 0) (initialProducts 0) = Sent 200 r
       \<and> st_inStock r + st_outOfStock r = st_totalProducts r
       \<and> st_totalProducts r = 5"
proof -
  have booleans: "list_all (\<lambda>p. p_inStock p \<noteq> None) (initialProducts 0)"
    by (auto simp: initialProducts_def)
  have five: "length (initialProducts 0) = 5"
    by (simp add: initialProducts_def)
  from statistics_counts_add_up [OF booleans] five show ?thesis by simp
qed

text \<open>
  C8, as stated for every statistics request. After a PUT of product 1 whose body is the
  update operator \<open>{"$unset": {"inStock": ""}}\<close>, which \<open>validateProductUpdate\<close> lets
  pass, the first seed product has no \<open>inStock\<close>: the total is 5, and the two counts are
  3 and 1. And when a product is created between the first and the second count, the
  total is 5, and the two counts are 5 and 1.
\<close>

theorem statistics_counts_disagree:
  "validateProductUpdate [(''$unset'', JObj [(''inStock'', JStr [])])] = Next
   \<and> product_statistics
        ((initialProducts 0)[0 := (initialProducts 0 ! 0)\<lparr>p_inStock := None\<rparr>])
        ((initialProducts 0)[0 := (initialProducts 0 ! 0)\<lparr>p_inStock := None\<rparr>])
        ((initialProducts 0)[0 := (initialProducts 0 ! 0)\<lparr>p_inStock := None\<rparr>])
       = Sent 200 \<lparr>st_totalProducts = 5, st_inStock = 3, st_outOfStock = 1\<rparr>
   \<and> product_statistics (initialProducts 0)
        (snd (post_product (Some ''sk_prod'') ''u-1'' 7 (initialProducts 0) (Some ''sk_prod'')
                [(''name'', JStr ''Desk''), (''price'', JNum 120), (''category'', JStr ''office'')]))
        (snd (post_product (Some ''sk_prod'') ''u-1'' 7 (initialProducts 0) (Some ''sk_prod'')
                [(''name'', JStr ''Desk''), (''price'', JNum 120), (''category'', JStr ''office'')]))
       = Sent 200 \<lparr>st_totalProducts = 5, st_inStock = 5, st_outOfStock = 1\<rparr>"
  by code_simp

section \<open>Route order\<close>

lemma dispatch_GetProduct_skipped:
  assumes "dispatch m path = GetProduct"
  shows "\<not> match_path [Lit ''api'', Lit ''products'', Lit ''search''] path
       \<and> \<not> match_path [Lit ''api'', Lit ''products'', Lit ''statistics''] path"
  using assms
  by (cases m) (auto simp add: dispatch_def routes_def method_matches_def
      simp del: match_path.simps split: if_splits)

text \<open>
  C10: a GET of \<open>/api/products/search\<close> goes to the search handler and a GET of
  \<open>/api/products/statistics\<close> to the statistics handler, although the route
  \<open>/api/products/:id\<close> matches both paths; and whenever the fetch-one handler is
  chosen, the path is one that neither the search route nor the statistics route
  matches.
\<close>

theorem search_and_statistics_routes_come_first:
  "dispatch GET ''/api/products/search'' = SearchProducts
   \<and> dispatch GET ''/api/products/statistics'' = ProductStatistics
   \<and> match_path [Lit ''api'', Lit ''products'', Param ''id''] ''/api/products/search''
   \<and> match_path [Lit ''api'', Lit ''products'', Param ''id''] ''/api/products/statistics''
   \<and> (\<forall>m path. dispatch m path = GetProduct \<longrightarrow>
         \<not> match_path [Lit ''api'', Lit ''products'', Lit ''search''] path
         \<and> \<not> match_path [Lit ''api'', Lit ''products'', Lit ''statistics''] path)"
proof -
  have "dispatch GET ''/api/products/search'' = SearchProducts"
    by (simp add: dispatch_def routes_def method_matches_def ascii_lower_def byte_def)
  moreover have "dispatch GET ''/api/products/statistics'' = ProductStatistics"
    by (simp add: dispatch_def routes_def method_matches_def ascii_lower_def byte_def)
  moreover have "match_path [Lit ''api'', Lit ''products'', Param ''id''] ''/api/products/search''"
    by (simp add: ascii_lower_def byte_def)
  moreover have "match_path [Lit ''api'', Lit ''products'', Param ''id''] ''/api/products/statistics''"
    by (simp add: ascii_lower_def byte_def)
  ultimately show ?thesis using dispatch_GetProduct_skipped by blast
qed

theorem search_and_statistics_routes_come_first_witness:
  "dispatch GET ''/api/products/42'' = GetProduct
   \<and> \<not> match_path [Lit ''api'', Lit ''products'', Lit ''search''] ''/api/products/42''
   \<and> \<not> match_path [Lit ''api'', Lit ''products'', Lit ''statistics''] ''/api/products/42''"
proof -
  have d: "dispatch GET ''/api/products/42'' = GetProduct"
    by (simp add: dispatch_def routes_def method_matches_def ascii_lower_def byte_def)
  with search_and_statistics_routes_come_first show ?thesis by blast
qed

section \<open>Error rendering\<close>

text \<open>
  C9, as stated: the trace is sent whenever the process is not in production mode, and
  an error outside the three classes is rendered with status 500 and
  \<open>status: "error"\<close>. Neither holds. With \<open>NODE_ENV = test\<close> the reply to an unmatched
  route carries no trace; and the error the body parser raises for an oversized body,
  which brings its own \<open>statusCode\<close> and \<open>status\<close> 413, is rendered with code 413 and
  \<open>status: 413\<close>.
\<close>

theorem errorHandler_by_design:
  "errorHandler (Some ''test'') (new_error NotFoundError ''Cannot find /nowhere on this server'' ''trace'')
     = Rendered \<lparr>code = 404,
         body = \<lparr>env_status = JStr ''error'',
                  env_message = ''Cannot find /nowhere on this server'',
                  env_errors = None, env_stack = None\<rparr>\<rparr>
   \<and> errorHandler (Some ''production'')
        \<lparr>e_name = ''PayloadTooLargeError'', e_message = ''request entity too large'',
         e_statusCode = Some 413, e_status = Some (JNum 413), e_errors = None,
         e_path = ''undefined'', e_value = ''undefined'', e_stack = Some ''trace''\<rparr>
     = Rendered \<lparr>code = 413,
         body = \<lparr>env_status = JNum 413, env_message = ''request entity too large'',
                  env_errors = None, env_stack = None\<rparr>\<rparr>"
  by (simp add: errorHandler_def new_error_def)

text \<open>
  C9, amended: every error that reaches the central handler, other than one named
  \<open>ValidationError\<close> that has no \<open>errors\<close> property, is rendered as an envelope. Its
  \<open>status\<close> is the error's own when that is truthy and \<open>error\<close> otherwise; its code
  is 400 for a \<open>CastError\<close> and a \<open>ValidationError\<close>, else the error's own
  \<open>statusCode\<close>, and 500 when the error has none; the trace is sent exactly when
  \<open>NODE_ENV\<close> is \<open>development\<close> and the error has one.
\<close>

theorem errorHandler_envelope:
  assumes "e_name err = ''ValidationError'' \<longrightarrow> e_errors err \<noteq> None"
  shows "\<exists>r. errorHandler NODE_ENV err = Rendered r
       \<and> env_status (body r) = (if truthy (e_status err) then the (e_status err) else JStr ''error'')
       \<and> code r = (if e_name err = ''CastError'' \<or> e_name err = ''ValidationError'' then 400
                    else case e_statusCode err of
                           Some n \<Rightarrow> if n = 0 then 500 else n
                         | None \<Rightarrow> 500)
       \<and> env_message (body r) =
            (if e_name err = ''CastError'' then ''Invalid '' @ e_path err @ '': '' @ e_value err
             else if e_name err = ''ValidationError'' then join '', '' (the (e_errors err))
             else e_message err)
       \<and> env_stack (body r) = (if NODE_ENV = Some ''development'' then e_stack err else None)
       \<and> env_errors (body r) = None"
  using assms by (auto simp: errorHandler_def Let_def split: option.splits)

theorem errorHandler_envelope_witness:
  "\<exists>r. errorHandler (Some ''development'')
          (new_error NotFoundError ''Product with id 999 not found'' ''trace'') = Rendered r
       \<and> env_status (body r) = JStr ''error''
       \<and> code r = 404
       \<and> env_message (body r) = ''Product with id 999 not found''
       \<and> env_stack (body r) = Some ''trace''
       \<and> env_errors (body r) = None"
  using errorHandler_envelope
          [where err = "new_error NotFoundError ''Product with id 999 not found'' ''trace''"
             and NODE_ENV = "Some ''development''"]
  by (simp add: new_error_def)

text \<open>
  The errors of the classes \<open>NotFoundError\<close> and \<open>AuthenticationError\<close> are rendered with
  their status codes. An error of the server's own class \<open>ValidationError\<close> has the name
  the handler takes for the store's validation error and no \<open>errors\<close> property: the
  handler throws on it and renders nothing.
\<close>

lemma class_errors_rendered:
  "c \<noteq> ValidationError \<Longrightarrow>
   errorHandler NODE_ENV (new_error c message trace) =
     Rendered \<lparr>code = class_statusCode c,
       body = \<lparr>env_status = JStr ''error'', env_message = message, env_errors = None,
                env_stack = (if NODE_ENV = Some ''development'' then Some trace else None)\<rparr>\<rparr>"
  by (cases c) (simp_all add: errorHandler_def new_error_def)

lemma own_ValidationError_not_rendered:
  "errorHandler NODE_ENV (new_error ValidationError message trace) = HandlerThrew"
  by (simp add: errorHandler_def new_error_def)

section \<open>Listing\<close>









text \<open>
  Beyond that range the source computes with rounded doubles, and the model does not
  say what it answers: a page of \<open>2^53 + 1\<close> is not a double.
\<close>

lemma page_beyond_exact_range:
  "parseInt ''9007199254740993'' = Beyond"
  by (simp add: parseInt_def Let_def ws1_def ws2_def ws3_def byte_def digit_value_def
      digits_value_def js_number_def)

lemma list_products_page_beyond:
  "list_products db \<lparr>q_category = None, q_inStock = None,
                      q_page = Some ''9007199254740993'', q_limit = None\<rparr> = NotModelled"
  by (simp add: list_products_def Let_def parseInt_param_def page_beyond_exact_range
      find_limit_skip_sort_name_def)


section \<open>Search\<close>

text \<open>For a pattern without a dot, the search of the model is the search for a substring.\<close>

lemma match_here_literal:
  "list_all (\<lambda>c. \<not> dot c) q \<Longrightarrow>
   match_here q t = (take (length q) (map ascii_lower t) = map ascii_lower q)"
  by (induction q t rule: match_here.induct) auto

lemma regex_search_i_literal:
  "list_all (\<lambda>c. \<not> dot c) q \<Longrightarrow>
   regex_search_i q t = str_includes (map ascii_lower t) (map ascii_lower q)"
  by (induction t) (auto simp: match_here_literal)

lemma dot_metacharacter: "dot c \<Longrightarrow> metacharacter c"
  by (simp add: dot_def metacharacter_def)

lemma literal_pattern_supported:
  "literal_pattern q \<Longrightarrow> supported_pattern q \<and> list_all (\<lambda>c. \<not> dot c) q"
  by (auto simp: literal_pattern_def supported_pattern_def list_all_iff dot_metacharacter)

lemma find_name_regex_i_literal:
  assumes "literal_pattern q" and "list_all (\<lambda>p. list_all printable (p_name p)) db"
  shows "find_name_regex_i db q = Found (filter (name_contains_ci q) db)"
proof -
  have "(\<lambda>p. regex_search_i q (p_name p)) = name_contains_ci q"
    using literal_pattern_supported [OF assms(1)]
    by (auto simp: name_contains_ci_def regex_search_i_literal)
  then show ?thesis
    using assms literal_pattern_supported [OF assms(1)] by (simp add: find_name_regex_i_def)
qed

lemma name_contains_ci_iff:
  "name_contains_ci q p
     \<longleftrightarrow> (\<exists>ps ss. map ascii_lower (p_name p) = ps @ map ascii_lower q @ ss)"
  by (simp add: name_contains_ci_def str_includes_iff)

text \<open>
  C3, amended: when \<open>q\<close> is absent or empty the search handler throws a
  \<open>ValidationError\<close> (class status 400). When \<open>q\<close> is a non-empty literal pattern, and
  the names are printable ASCII, it answers with exactly the products of the whole
  collection whose name contains \<open>q\<close> without regard to case, the query, and their
  count; a query that no name contains gets zero results.
\<close>

theorem search_products_result:
  "(q = None \<or> q = Some [] \<longrightarrow>
      search_products db q = Threw ValidationError search_query_required
      \<and> class_statusCode ValidationError = 400)
   \<and> (s \<noteq> [] \<and> literal_pattern s \<and> list_all (\<lambda>p. list_all printable (p_name p)) db \<longrightarrow>
      (\<exists>r. search_products db (Some s) = Sent 200 r
          \<and> s_data r = filter (name_contains_ci s) db
          \<and> set (s_data r) =
               {p \<in> set db. \<exists>ps ss. map ascii_lower (p_name p) = ps @ map ascii_lower s @ ss}
          \<and> s_searchQuery r = s
          \<and> s_results r = length (s_data r)
          \<and> (\<not> list_ex (name_contains_ci s) db \<longrightarrow> s_results r = 0 \<and> s_data r = [])))"
proof (intro conjI impI)
  assume "q = None \<or> q = Some []"
  then show "search_products db q = Threw ValidationError search_query_required"
    by (auto simp: search_products_def)
next
  show "class_statusCode ValidationError = 400" by simp
next
  assume a: "s \<noteq> [] \<and> literal_pattern s \<and> list_all (\<lambda>p. list_all printable (p_name p)) db"
  let ?hits = "filter (name_contains_ci s) db"
  have sent: "search_products db (Some s) =
          Sent 200 \<lparr>s_results = length ?hits, s_searchQuery = s, s_data = ?hits\<rparr>"
    using a by (simp add: search_products_def find_name_regex_i_literal)
  have members: "set ?hits =
          {p \<in> set db. \<exists>ps ss. map ascii_lower (p_name p) = ps @ map ascii_lower s @ ss}"
    by (auto simp: name_contains_ci_iff)
  have none: "\<not> list_ex (name_contains_ci s) db \<longrightarrow> ?hits = []"
    by (auto simp: list_ex_iff filter_empty_conv)
  show "\<exists>r. search_products db (Some s) = Sent 200 r
          \<and> s_data r = filter (name_contains_ci s) db
          \<and> set (s_data r) =
               {p \<in> set db. \<exists>ps ss. map ascii_lower (p_name p) = ps @ map ascii_lower s @ ss}
          \<and> s_searchQuery r = s
          \<and> s_results r = length (s_data r)
          \<and> (\<not> list_ex (name_contains_ci s) db \<longrightarrow> s_results r = 0 \<and> s_data r = [])"
    using sent members none by simp
qed

theorem search_products_result_witness:
  "search_products (initialProducts 0) None = Threw ValidationError search_query_required
   \<and> (\<exists>r. search_products (initialProducts 0) (Some ''laptop'') = Sent 200 r
          \<and> map p_id (s_data r) = [''1'']
          \<and> s_searchQuery r = ''laptop''
          \<and> s_results r = 1)
   \<and> (\<exists>r. search_products (initialProducts 0) (Some ''tablet'') = Sent 200 r
          \<and> s_data r = []
          \<and> s_results r = 0)"
proof -
  have lit: "literal_pattern ''laptop''" "literal_pattern ''tablet''"
    by (simp_all add: literal_pattern_def printable_def metacharacter_def byte_def)
  have names: "list_all (\<lambda>p. list_all printable (p_name p)) (initialProducts 0)"
    by (simp add: initialProducts_def printable_def byte_def)
  have hits: "filter (name_contains_ci ''laptop'') (initialProducts 0) = [initialProducts 0 ! 0]"
    by code_simp
  have nohit: "\<not> list_ex (name_contains_ci ''tablet'') (initialProducts 0)"
    by code_simp
  from search_products_result [where q = None and s = "''laptop''" and db = "initialProducts 0"]
    lit(1) names
  obtain r1 where r1: "search_products (initialProducts 0) (Some ''laptop'') = Sent 200 r1"
      "s_data r1 = filter (name_contains_ci ''laptop'') (initialProducts 0)"
      "s_searchQuery r1 = ''laptop''" "s_results r1 = length (s_data r1)"
    and absent: "search_products (initialProducts 0) None = Threw ValidationError search_query_required"
    by auto
  from search_products_result [where q = None and s = "''tablet''" and db = "initialProducts 0"]
    lit(2) names nohit
  obtain r2 where r2: "search_products (initialProducts 0) (Some ''tablet'') = Sent 200 r2"
      "s_data r2 = []" "s_results r2 = 0"
    by auto
  have "map p_id (s_data r1) = [''1'']" "s_results r1 = 1"
    using r1(2,4) hits by (simp_all add: initialProducts_def)
  with r1(1,3) r2 absent show ?thesis by simp
qed

text \<open>
  C3, as stated: the result is the products whose name contains \<open>q\<close>, for every \<open>q\<close>
  that is present. The query is a regular expression: \<open>q = .\<close> finds all five seed
  products, though no name contains a dot. And an empty \<open>q\<close>, which every name
  contains, is refused like an absent one.
\<close>

theorem search_products_pattern_not_substring:
  "search_products (initialProducts 0) (Some ''.'') =
     Sent 200 \<lparr>s_results = 5, s_searchQuery = ''.'', s_data = initialProducts 0\<rparr>
   \<and> \<not> list_ex (name_contains_ci ''.'') (initialProducts 0)
   \<and> search_products (initialProducts 0) (Some []) = Threw ValidationError search_query_required
   \<and> list_all (name_contains_ci []) (initialProducts 0)"
  by code_simp

section \<open>Partial update\<close>

text \<open>
  A PUT that is answered with 200 found a product with the id of the route, and the
  answer is that product with the fields of the body set and a new \<open>updatedAt\<close>.
\<close>

lemma put_product_sent:
  assumes "put_product API_KEY now db apiKey i b = (Sent 200 r, db')"
  shows "\<exists>p. findOne db i = Some p \<and> in_model b
           \<and> r_data r = (set_fields b p)\<lparr>p_updatedAt := now\<rparr>
           \<and> db' = replace_first i (r_data r) db"
  using assms
  by (auto simp: put_product_def update_handler_def findOneAndUpdate_def Let_def
      split: middleware_result.splits store_result.splits option.splits if_splits prod.splits)

lemma findOne_id: "findOne db i = Some p \<Longrightarrow> p_id p = i"
  unfolding findOne_def by (induction db) (auto split: if_splits)

lemma findOne_replace_first:
  "findOne db i = Some p \<Longrightarrow> p_id p' = i \<Longrightarrow> findOne (replace_first i p' db) i = Some p'"
  unfolding findOne_def by (induction db) (auto split: if_splits)

text \<open>
  C6, amended: after a successful partial update, every field of the stored product
  other than \<open>updatedAt\<close> that is absent from the body has the value it had before;
  \<open>updatedAt\<close> is the time of the update.
\<close>

theorem update_leaves_absent_fields:
  assumes "put_product API_KEY now db apiKey i b = (Sent 200 r, db')"
  shows "\<exists>p. findOne db i = Some p \<and> db' = replace_first i (r_data r) db
       \<and> (get_prop b ''id'' = None \<longrightarrow> p_id (r_data r) = p_id p)
       \<and> (get_prop b ''name'' = None \<longrightarrow> p_name (r_data r) = p_name p)
       \<and> (get_prop b ''price'' = None \<longrightarrow> p_price (r_data r) = p_price p)
       \<and> (get_prop b ''category'' = None \<longrightarrow> p_category (r_data r) = p_category p)
       \<and> (get_prop b ''inStock'' = None \<longrightarrow> p_inStock (r_data r) = p_inStock p)
       \<and> p_createdAt (r_data r) = p_createdAt p
       \<and> p_updatedAt (r_data r) = now"
proof -
  from put_product_sent [OF assms] obtain p where
    p: "findOne db i = Some p" "r_data r = (set_fields b p)\<lparr>p_updatedAt := now\<rparr>"
       "db' = replace_first i (r_data r) db"
    by blast
  from p(2) have "(get_prop b ''id'' = None \<longrightarrow> p_id (r_data r) = p_id p)
       \<and> (get_prop b ''name'' = None \<longrightarrow> p_name (r_data r) = p_name p)
       \<and> (get_prop b ''price'' = None \<longrightarrow> p_price (r_data r) = p_price p)
       \<and> (get_prop b ''category'' = None \<longrightarrow> p_category (r_data r) = p_category p)
       \<and> (get_prop b ''inStock'' = None \<longrightarrow> p_inStock (r_data r) = p_inStock p)
       \<and> p_createdAt (r_data r) = p_createdAt p
       \<and> p_updatedAt (r_data r) = now"
    by (simp add: set_fields_def)
  with p(1,3) show ?thesis by (intro exI [where x = p]) simp
qed

text \<open>An update of the price of the first seed product, at time 5.\<close>

lemma seed_update_price:
  "put_product (Some ''sk_prod'') 5 (initialProducts 0) (Some ''sk_prod'') ''1''
       [(''price'', JNum 999)] =
     (Sent 200 \<lparr>r_message = ''Product updated successfully'',
                r_data = \<lparr>p_id = ''1'', p_name = ''Laptop'', p_price = 999,
                           p_category = ''electronics'', p_inStock = Some True,
                           p_createdAt = 0, p_updatedAt = 5\<rparr>\<rparr>,
      (initialProducts 0)[0 := \<lparr>p_id = ''1'', p_name = ''Laptop'', p_price = 999,
                           p_category = ''electronics'', p_inStock = Some True,
                           p_createdAt = 0, p_updatedAt = 5\<rparr>])"
  by code_simp

theorem update_leaves_absent_fields_witness:
  "\<exists>p. findOne (initialProducts 0) ''1'' = Some p
       \<and> p_id p = ''1'' \<and> p_name p = ''Laptop'' \<and> p_category p = ''electronics''
       \<and> p_inStock p = Some True \<and> p_createdAt p = 0"
proof -
  have absent: "get_prop [(''price'', JNum 999)] ''id'' = None"
      "get_prop [(''price'', JNum 999)] ''name'' = None"
      "get_prop [(''price'', JNum 999)] ''category'' = None"
      "get_prop [(''price'', JNum 999)] ''inStock'' = None"
    by (simp_all add: get_prop_def)
  from update_leaves_absent_fields [OF seed_update_price] absent
  show ?thesis by auto
qed

text \<open>
  C6, as stated for every field: the update above sends no \<open>updatedAt\<close>, and the stored
  \<open>updatedAt\<close> changes from 0 to 5.
\<close>

theorem update_changes_updatedAt:
  "fst (put_product (Some ''sk_prod'') 5 (initialProducts 0) (Some ''sk_prod'') ''1''
          [(''price'', JNum 999)]) =
     Sent 200 \<lparr>r_message = ''Product updated successfully'',
               r_data = \<lparr>p_id = ''1'', p_name = ''Laptop'', p_price = 999,
                          p_category = ''electronics'', p_inStock = Some True,
                          p_createdAt = 0, p_updatedAt = 5\<rparr>\<rparr>
   \<and> findOne (initialProducts 0) ''1'' =
       Some \<lparr>p_id = ''1'', p_name = ''Laptop'', p_price = 1200,
              p_category = ''electronics'', p_inStock = Some True,
              p_createdAt = 0, p_updatedAt = 0\<rparr>
   \<and> get_prop [(''price'', JNum 999)] ''updatedAt'' = None"
  by code_simp

text \<open>
  C7, amended: after a successful partial update whose body has no \<open>id\<close>, or has the
  id the product already has, the product has the id it had before, and is found under
  it.
\<close>

theorem update_keeps_id_unless_given:
  assumes "put_product API_KEY now db apiKey i b = (Sent 200 r, db')"
    and "get_prop b ''id'' = None \<or> get_prop b ''id'' = Some (JStr i)"
  shows "p_id (r_data r) = i \<and> (\<exists>p. findOne db i = Some p \<and> p_id p = i)
       \<and> findOne db' i = Some (r_data r)"
proof -
  from put_product_sent [OF assms(1)] obtain p where
    p: "findOne db i = Some p" "r_data r = (set_fields b p)\<lparr>p_updatedAt := now\<rparr>"
       "db' = replace_first i (r_data r) db"
    by blast
  have old: "p_id p = i" using p(1) by (rule findOne_id)
  have new: "p_id (r_data r) = i"
    using assms(2) p(2) old by (auto simp: set_fields_def)
  have "findOne db' i = Some (r_data r)"
    unfolding p(3) using p(1) new by (rule findOne_replace_first)
  with old new p(1) show ?thesis by simp
qed

theorem update_keeps_id_unless_given_witness:
  "findOne ((initialProducts 0)[0 := \<lparr>p_id = ''1'', p_name = ''Laptop'', p_price = 999,
                           p_category = ''electronics'', p_inStock = Some True,
                           p_createdAt = 0, p_updatedAt = 5\<rparr>]) ''1''
     = Some \<lparr>p_id = ''1'', p_name = ''Laptop'', p_price = 999,
              p_category = ''electronics'', p_inStock = Some True,
              p_createdAt = 0, p_updatedAt = 5\<rparr>"
proof -
  have absent: "get_prop [(''price'', JNum 999)] ''id'' = None \<or>
                get_prop [(''price'', JNum 999)] ''id'' = Some (JStr ''1'')"
    by (simp add: get_prop_def)
  from update_keeps_id_unless_given [OF seed_update_price absent]
  show ?thesis by simp
qed

text \<open>
  C7, as stated for every body the validation accepts: the body \<open>{id: "99"}\<close> passes
  \<open>validateProductUpdate\<close>, and the update of product 1 with it answers 200 with a
  product whose id is 99.
\<close>

theorem update_can_change_id:
  "validateProductUpdate [(''id'', JStr ''99'')] = Next
   \<and> fst (put_product (Some ''sk_prod'') 5 (initialProducts 0) (Some ''sk_prod'') ''1''
          [(''id'', JStr ''99'')]) =
     Sent 200 \<lparr>r_message = ''Product updated successfully'',
               r_data = \<lparr>p_id = ''99'', p_name = ''Laptop'', p_price = 1200,
                          p_category = ''electronics'', p_inStock = Some True,
                          p_createdAt = 0, p_updatedAt = 5\<rparr>\<rparr>
   \<and> findOne (initialProducts 0) ''1'' =
       Some \<lparr>p_id = ''1'', p_name = ''Laptop'', p_price = 1200,
              p_category = ''electronics'', p_inStock = Some True,
              p_createdAt = 0, p_updatedAt = 0\<rparr>"
  by code_simp

end
